theory Spec2Isabelle
  imports Complex_Main "HOL-Library.Word" "HOL-Library.Log_Nat" "HOL-Library.Signed_Division"
begin

section \<open>The image-to-tensor converter (binaries/convert\_image\_to\_tensor.cc)\<close>

text \<open>
  The program decodes a list of images, resizes and crops each one, turns it into a planar
  vector of floats and packs all vectors into one tensor. This theory embeds the functions
  \<open>reportTime\<close>, \<open>resizeImage\<close>, \<open>cropToRec\<close>, \<open>convertToVector\<close>, \<open>convertOneImage\<close> and
  \<open>convertImages\<close> of that file.

  Conventions of the embedding:
  \<^item> every way the C++ leaves the normal control flow is a value of \<open>error\<close>, and a function
    that can do so returns \<open>error + 'a\<close>;
  \<^item> \<open>assert\<close> is taken as compiled in (no \<open>NDEBUG\<close>): a failing assertion ends the run;
  \<^item> C++ \<open>int\<close> values are HOL integers; where the C++ arithmetic would leave the 32-bit
    range (undefined behaviour) the model returns \<open>Undefined\<close>;
  \<^item> the command-line flags, which the C++ reads from globals, are a record passed to
    every function;
  \<^item> what the file takes from other libraries (float arithmetic, \<open>caffe2::split\<close>,
    \<open>std::stoi\<close>, \<open>cv::imread\<close>, the resampling of \<open>cv::resize\<close>, reading the lines of a
    file) is a record of functions passed to every function;
  \<^item> text printed to \<open>std::cout\<close> and the microseconds measured by \<open>caffe2::Timer\<close> are not
    part of the model.
\<close>

subsection \<open>Data\<close>

type_synonym uchar = "8 word"

datatype error =
    AssertionFailed string  \<comment> \<open>a failing \<open>assert\<close>, with the asserted expression\<close>
  | EnforceNotMet string    \<comment> \<open>a failing \<open>CAFFE_ENFORCE\<close>, with its message\<close>
  | CvError                 \<comment> \<open>a \<open>cv::Exception\<close> thrown by OpenCV\<close>
  | StdException            \<comment> \<open>an exception of \<open>std::stoi\<close>\<close>
  | Undefined               \<comment> \<open>undefined behaviour of the C++\<close>

text \<open>
  A \<open>cv::Mat\<close> of 8-bit samples: its \<open>rows\<close> and \<open>cols\<close> (never negative in OpenCV) and the
  sample at a row, a column and a channel. A grayscale matrix has channel 0 only, a colour
  matrix has the channels 0, 1, 2 of a \<open>cv::Vec3b\<close>.
\<close>

record Mat =
  rows :: nat
  cols :: nat
  pixel_at :: "nat \<Rightarrow> nat \<Rightarrow> nat \<Rightarrow> uchar"

text \<open>The flags defined at the top of the file, under their C++ names.\<close>

record flags =
  FLAGS_color :: bool
  FLAGS_crop :: string
  FLAGS_input_images :: string
  FLAGS_input_image_file :: string
  FLAGS_output_tensor :: string
  FLAGS_preprocess :: string
  FLAGS_report_time :: string
  FLAGS_scale :: int
  FLAGS_text_output :: bool
  FLAGS_warp :: bool

text \<open>
  The collaborators. The type \<open>'f\<close> is the C++ type \<open>float\<close>: \<open>fconst\<close> converts an integer or
  a decimal literal to it, \<open>fmul\<close>, \<open>fdiv\<close> and \<open>fsub\<close> are its arithmetic, and \<open>ftrunc\<close> is
  the conversion to \<open>int\<close>, \<open>None\<close> where C++ leaves it undefined. \<open>stoi\<close> is \<open>None\<close> where
  \<open>std::stoi\<close> throws. \<open>imread\<close> takes the file name and the colour flag. \<open>resample\<close> gives
  the samples of the image resized to a width and a height. \<open>getlines\<close> gives the lines
  that \<open>std::getline\<close> reads from a file.
\<close>

record 'f extern =
  fconst :: "rat \<Rightarrow> 'f"
  fmul :: "'f \<Rightarrow> 'f \<Rightarrow> 'f"
  fdiv :: "'f \<Rightarrow> 'f \<Rightarrow> 'f"
  fsub :: "'f \<Rightarrow> 'f \<Rightarrow> 'f"
  ftrunc :: "'f \<Rightarrow> int option"
  split :: "char \<Rightarrow> string \<Rightarrow> string list"
  stoi :: "string \<Rightarrow> int option"
  imread :: "string \<Rightarrow> bool \<Rightarrow> Mat"
  resample :: "Mat \<Rightarrow> nat \<Rightarrow> nat \<Rightarrow> nat \<Rightarrow> nat \<Rightarrow> nat \<Rightarrow> uchar"
  getlines :: "string \<Rightarrow> string list"

definition int_range :: "int \<Rightarrow> bool" where
  "int_range x \<longleftrightarrow> - (2 ^ 31) \<le> x \<and> x < 2 ^ 31"

subsection \<open>reportTime\<close>

definition reportTime :: "'f extern \<Rightarrow> flags \<Rightarrow> string \<Rightarrow> string \<Rightarrow> string \<Rightarrow> error + unit" where
  "reportTime env fl type metric unit =
     (if FLAGS_report_time fl = [] then Inr ()
      else case split env CHR ''|'' (FLAGS_report_time fl) of
             [] \<Rightarrow> Inl Undefined
           | s0 # _ \<Rightarrow> if s0 = ''json'' then Inr () else Inl (AssertionFailed ''s[0] == json''))"

subsection \<open>resizeImage\<close>

text \<open>
  \<open>cv::resize\<close> to the size \<open>(width, height)\<close>: OpenCV throws on an empty source and on an
  empty target size, and otherwise returns a matrix of exactly that size.
\<close>

definition cv_resize :: "'f extern \<Rightarrow> Mat \<Rightarrow> int \<Rightarrow> int \<Rightarrow> error + Mat" where
  "cv_resize env src width height =
     (if rows src = 0 \<or> cols src = 0 \<or> width \<le> 0 \<or> height \<le> 0 then Inl CvError
      else Inr \<lparr>rows = nat height, cols = nat width,
                pixel_at = resample env src (nat width) (nat height)\<rparr>)"

text \<open>The expression \<open>static_cast<float>(a) * FLAGS_scale / b\<close>, assigned to an \<open>int\<close>.\<close>

definition scaled_edge :: "'f extern \<Rightarrow> nat \<Rightarrow> int \<Rightarrow> nat \<Rightarrow> int option" where
  "scaled_edge env a s b =
     ftrunc env (fdiv env (fmul env (fconst env (of_nat a)) (fconst env (of_int s)))
                          (fconst env (of_nat b)))"

definition resizeImage :: "'f extern \<Rightarrow> flags \<Rightarrow> Mat \<Rightarrow> error + Mat" where
  "resizeImage env fl img =
     (if FLAGS_scale fl \<le> 0 then Inr img
      else
        let (scaled_width, scaled_height) =
              (if rows img > cols img
               then (Some (FLAGS_scale fl), scaled_edge env (rows img) (FLAGS_scale fl) (cols img))
               else (scaled_edge env (cols img) (FLAGS_scale fl) (rows img), Some (FLAGS_scale fl)))
        in case scaled_width of
             None \<Rightarrow> Inl Undefined
           | Some w \<Rightarrow> (case scaled_height of
                          None \<Rightarrow> Inl Undefined
                        | Some h \<Rightarrow> cv_resize env img w h))"

subsection \<open>cropToRec\<close>

text \<open>
  \<open>height\<close> and \<open>width\<close> are reference parameters: the function returns their final values
  beside the matrix. C++ integer division truncates towards zero (\<open>sdiv\<close>). The cropped
  matrix is the clone of the region of interest.
\<close>

definition cropToRec :: "Mat \<Rightarrow> int \<Rightarrow> int \<Rightarrow> error + (Mat \<times> int \<times> int)" where
  "cropToRec img height width =
     (if height > 0 \<and> width > 0 \<and> (int (rows img) \<noteq> height \<or> int (cols img) \<noteq> width) then
        let roi_x = (int (cols img) - width) sdiv 2;
            roi_y = (int (rows img) - height) sdiv 2;
            roi_x = (if roi_x < 0 then 0 else roi_x);
            roi_y = (if roi_y < 0 then 0 else roi_y);
            width = (if width > int (cols img) then int (cols img) else width);
            height = (if height > int (rows img) then int (rows img) else height);
            roi_width = width;
            roi_height = height
        in if 0 \<le> roi_x \<and> 0 \<le> roi_width \<and> roi_x + roi_width \<le> int (cols img) \<and>
              0 \<le> roi_y \<and> 0 \<le> roi_height \<and> roi_y + roi_height \<le> int (rows img)
           then Inr (\<lparr>rows = nat roi_height, cols = nat roi_width,
                      pixel_at = (\<lambda>r c. pixel_at img (nat roi_y + r) (nat roi_x + c))\<rparr>,
                     height, width)
           else Inl (AssertionFailed ''0 <= roi.x && 0 <= roi.width && roi.x + roi.width <= img.cols && 0 <= roi.y && 0 <= roi.height && roi.y + roi.height <= img.rows'')
      else Inr (img, height, width))"

subsection \<open>convertToVector\<close>

text \<open>The local variables that the loop over the preprocessing steps assigns.\<close>

record 'f prep =
  normalize_vec :: "'f list"
  mean :: "'f list"
  std :: "'f list"
  bgrtorgb :: bool

definition apply_step :: "'f extern \<Rightarrow> 'f prep \<Rightarrow> string \<Rightarrow> error + 'f prep" where
  "apply_step env st step =
     (if step = ''subtract128'' then
        Inr (st\<lparr>mean := [fconst env 128, fconst env 128, fconst env 128],
                std := [fconst env 1, fconst env 1, fconst env 1],
                normalize_vec := [fconst env 1, fconst env 1, fconst env 1]\<rparr>)
      else if step = ''normalize'' then
        Inr (st\<lparr>normalize_vec := [fconst env 255, fconst env 255, fconst env 255]\<rparr>)
      else if step = ''mean'' then
        Inr (st\<lparr>mean := [fconst env (406 / 1000), fconst env (456 / 1000), fconst env (485 / 1000)]\<rparr>)
      else if step = ''std'' then
        Inr (st\<lparr>std := [fconst env (225 / 1000), fconst env (224 / 1000), fconst env (229 / 1000)]\<rparr>)
      else if step = ''bgrtorgb'' then
        Inr (st\<lparr>bgrtorgb := True\<rparr>)
      else Inl (EnforceNotMet ''Unsupported preprocess step. The supported steps are: subtract128, normalize,mean, std, swaprb.''))"

fun steps_loop :: "'f extern \<Rightarrow> string list \<Rightarrow> 'f prep \<Rightarrow> error + 'f prep" where
  "steps_loop env [] st = Inr st"
| "steps_loop env (step # steps) st =
     (case apply_step env st step of
        Inl e \<Rightarrow> Inl e
      | Inr st' \<Rightarrow> steps_loop env steps st')"

definition initial_prep :: "'f extern \<Rightarrow> 'f prep" where
  "initial_prep env =
     \<lparr>normalize_vec = replicate 3 (fconst env 1),
      mean = replicate 3 (fconst env 0),
      std = replicate 3 (fconst env 1),
      bgrtorgb = False\<rparr>"

text \<open>
  The pixels in the order in which a \<open>cv::MatIterator_\<close> visits them: row by row, each row
  from the first column to the last. A pixel is the function from the channel to the sample.
\<close>

definition pixels :: "Mat \<Rightarrow> (nat \<Rightarrow> uchar) list" where
  "pixels img = concat (map (\<lambda>r. map (\<lambda>c. pixel_at img r c) [0..<cols img]) [0..<rows img])"

text \<open>The expression \<open>(v / normalize[k] - mean[k]) / std[k]\<close> for a sample \<open>v\<close>.\<close>

definition norm_value :: "'f extern \<Rightarrow> 'f prep \<Rightarrow> nat \<Rightarrow> uchar \<Rightarrow> 'f" where
  "norm_value env st k v =
     fdiv env (fsub env (fdiv env (fconst env (of_nat (unat v))) (normalize_vec st ! k))
                        (mean st ! k))
              (std st ! k)"

fun gray_loop :: "'f extern \<Rightarrow> 'f prep \<Rightarrow> (nat \<Rightarrow> uchar) list \<Rightarrow> nat \<Rightarrow> 'f list \<Rightarrow> 'f list" where
  "gray_loop env st [] idx values = values"
| "gray_loop env st (p # ps) idx values =
     gray_loop env st ps (idx + 1) (values[idx := norm_value env st 0 (p 0)])"

fun color_loop ::
  "'f extern \<Rightarrow> 'f prep \<Rightarrow> nat \<Rightarrow> nat \<Rightarrow> nat \<Rightarrow> nat \<Rightarrow> (nat \<Rightarrow> uchar) list \<Rightarrow> nat \<Rightarrow> 'f list \<Rightarrow> 'f list"
where
  "color_loop env st size' b g r [] i values = values"
| "color_loop env st size' b g r (p # ps) i values =
     (let values = values[i := norm_value env st 0 (p b)];
          offset = size' + i;
          values = values[offset := norm_value env st 1 (p g)];
          offset = size' + offset;
          values = values[offset := norm_value env st 2 (p r)]
      in color_loop env st size' b g r ps (i + 1) values)"

definition convertToVector :: "'f extern \<Rightarrow> flags \<Rightarrow> Mat \<Rightarrow> error + 'f list" where
  "convertToVector env fl img =
     (let size' = int (cols img) * int (rows img) in
      if \<not> int_range size' then Inl Undefined
      else case steps_loop env (split env CHR '','' (FLAGS_preprocess fl)) (initial_prep env) of
        Inl e \<Rightarrow> Inl e
      | Inr st \<Rightarrow>
          let C = (if FLAGS_color fl then 3 else 1 :: int);
              total_size = C * size'
          in if \<not> int_range total_size then Inl Undefined
             else
               let values = replicate (nat total_size) (fconst env 0)
               in if C = 1 then Inr (gray_loop env st (pixels img) 0 values)
                  else
                    let b = (if bgrtorgb st then 2 else 0);
                        g = 1;
                        r = (if bgrtorgb st then 0 else 2)
                    in Inr (color_loop env st (nat size') b g r (pixels img) 0 values))"

subsection \<open>convertOneImage\<close>

text \<open>
  The function returns the vector together with the final values of its reference
  parameters \<open>height\<close> and \<open>width\<close>. \<open>filename[0]\<close> of an empty \<open>std::string\<close> is the
  terminating zero character. A matrix of the model has no memory layout, so that
  \<open>DCHECK(crop.isContinuous())\<close> has no counterpart: \<open>cropToRec\<close> returns a clone or the
  whole image, which are continuous.
\<close>

definition convertOneImage :: "'f extern \<Rightarrow> flags \<Rightarrow> string \<Rightarrow> error + ('f list \<times> int \<times> int)" where
  "convertOneImage env fl filename =
     (if filename \<noteq> [] \<and> hd filename = CHR ''~'' then Inl (AssertionFailed ''filename[0] != ~'')
      else
        let img = imread env filename (FLAGS_color fl)
        in case resizeImage env fl img of
          Inl e \<Rightarrow> Inl e
        | Inr resized_img \<Rightarrow>
           (case split env CHR '','' (FLAGS_crop fl) of
              [] \<Rightarrow> Inl Undefined
            | s0 # rest \<Rightarrow>
               (case stoi env s0 of
                  None \<Rightarrow> Inl StdException
                | Some height \<Rightarrow>
                   (case rest of
                      [] \<Rightarrow> Inl Undefined
                    | s1 # _ \<Rightarrow>
                       (case stoi env s1 of
                          None \<Rightarrow> Inl StdException
                        | Some width \<Rightarrow>
                            let (height, width) =
                                  (if height \<le> 0 \<or> width \<le> 0
                                   then (int (rows resized_img), int (cols resized_img))
                                   else (height, width))
                            in (case cropToRec resized_img height width of
                                  Inl e \<Rightarrow> Inl e
                                | Inr (crop, height, width) \<Rightarrow>
                                    if int (rows crop) \<noteq> height
                                    then Inl (AssertionFailed ''crop.rows == height'')
                                    else if int (rows crop) \<noteq> width
                                    then Inl (AssertionFailed ''crop.rows == width'')
                                    else (case convertToVector env fl crop of
                                            Inl e \<Rightarrow> Inl e
                                          | Inr one_image_values \<Rightarrow>
                                             (case reportTime env fl ''image_preprocess'' ''convert'' ''us'' of
                                                Inl e \<Rightarrow> Inl e
                                              | Inr _ \<Rightarrow> Inr (one_image_values, height, width)))))))))"

subsection \<open>convertImages\<close>

datatype DataType = FLOAT

record 'f TensorProto =
  data_type :: DataType
  dims :: "int list"
  float_data :: "'f list"

text \<open>
  What the run hands to \<open>WriteProtoToTextFile\<close> or \<open>WriteProtoToBinaryFile\<close>: the file
  name, whether the text writer is called, and the \<open>TensorProtos\<close> message.
\<close>

record 'f written =
  output_file :: string
  as_text :: bool
  protos :: "'f TensorProto list"

text \<open>The name taken from one line of the file of input images.\<close>

definition line_name :: "'f extern \<Rightarrow> string \<Rightarrow> string" where
  "line_name env line =
     (let file_name = split env CHR '','' line
      in if length file_name = 3 then file_name ! 2 else line)"

definition read_file_names :: "'f extern \<Rightarrow> flags \<Rightarrow> error + string list" where
  "read_file_names env fl =
     (if FLAGS_input_images fl \<noteq> [] then Inr (split env CHR '','' (FLAGS_input_images fl))
      else if FLAGS_input_image_file fl \<noteq> [] then
        Inr (map (line_name env) (getlines env (FLAGS_input_image_file fl)))
      else Inl (AssertionFailed ''false''))"

text \<open>The loop over the file names, with the variables \<open>height\<close>, \<open>width\<close> and \<open>values\<close>.\<close>

fun images_loop ::
  "'f extern \<Rightarrow> flags \<Rightarrow> string list \<Rightarrow> int \<Rightarrow> int \<Rightarrow> 'f list list \<Rightarrow> error + (int \<times> int \<times> 'f list list)"
where
  "images_loop env fl [] height width values = Inr (height, width, values)"
| "images_loop env fl (name # names) height width values =
     (case convertOneImage env fl name of
        Inl e \<Rightarrow> Inl e
      | Inr (one_image_values, one_height, one_width) \<Rightarrow>
          if height < 0 \<and> width < 0
          then images_loop env fl names one_height one_width (values @ [one_image_values])
          else if height \<noteq> one_height then Inl (AssertionFailed ''height == one_height'')
          else if width \<noteq> one_width then Inl (AssertionFailed ''width == one_width'')
          else images_loop env fl names height width (values @ [one_image_values]))"

text \<open>The loop that copies the vectors into \<open>float_data\<close>, checking the length of each.\<close>

fun pack_loop :: "int \<Rightarrow> int \<Rightarrow> int \<Rightarrow> 'f list list \<Rightarrow> 'f list \<Rightarrow> error + 'f list" where
  "pack_loop C height width [] data = Inr data"
| "pack_loop C height width (v # vs) data =
     (if \<not> int_range (C * height) \<or> \<not> int_range (C * height * width) then Inl Undefined
      else if int (length v) \<noteq> C * height * width
      then Inl (AssertionFailed ''values[i].size() == C * height * width'')
      else pack_loop C height width vs (data @ v))"

definition convertImages :: "'f extern \<Rightarrow> flags \<Rightarrow> error + 'f written" where
  "convertImages env fl =
     (case read_file_names env fl of
        Inl e \<Rightarrow> Inl e
      | Inr file_names \<Rightarrow>
          let C = (if FLAGS_color fl then 3 else 1 :: int)
          in (case images_loop env fl file_names (- 1) (- 1) [] of
                Inl e \<Rightarrow> Inl e
              | Inr (height, width, values) \<Rightarrow>
                 (case pack_loop C height width values [] of
                    Inl e \<Rightarrow> Inl e
                  | Inr data \<Rightarrow>
                     (case reportTime env fl ''image_preprocess'' ''pack'' ''us'' of
                        Inl e \<Rightarrow> Inl e
                      | Inr _ \<Rightarrow>
                          Inr \<lparr>output_file = FLAGS_output_tensor fl,
                               as_text = FLAGS_text_output fl,
                               protos = [\<lparr>data_type = FLOAT,
                                          dims = [int (length values), C, height, width],
                                          float_data = data\<rparr>]\<rparr>))))"

subsection \<open>The arithmetic of binary32\<close>

text \<open>
  The C++ type \<open>float\<close> is IEEE 754 binary32 on the platforms this program is built for, and
  every operation rounds its exact result to the nearest binary32 number, ties to the even
  significand. A finite float is the rational it denotes; \<open>None\<close> stands for the values that
  are not finite (the infinities and NaN), which none of the operations below turns back
  into a finite one here. The sign of zero is not kept.

  \<open>fl32 x\<close> is the rounding of the exact value \<open>x\<close>: with \<open>2 ^ e \<le> \<bar>x\<bar> < 2 ^ (e + 1)\<close> the
  binary32 numbers around \<open>x\<close> are the multiples of \<open>2 ^ (e - 23)\<close>; below \<open>2 ^ - 126\<close> (the
  subnormal range) they are the multiples of \<open>2 ^ - 149\<close>; a result of magnitude \<open>2 ^ 128\<close>
  overflows.
\<close>

definition pow2 :: "int \<Rightarrow> rat" where
  "pow2 e = (if 0 \<le> e then 2 ^ nat e else 1 / 2 ^ nat (- e))"

text \<open>For \<open>x > 0\<close>, the exponent \<open>e\<close> with \<open>2 ^ e \<le> x < 2 ^ (e + 1)\<close>.\<close>

definition ilog2 :: "rat \<Rightarrow> int" where
  "ilog2 x = (let (p, q) = quotient_of x; d = bitlen p - bitlen q
              in if pow2 d \<le> x then d else d - 1)"

definition round_ties_even :: "rat \<Rightarrow> int" where
  "round_ties_even q =
     (let n = \<lfloor>q\<rfloor>; d = q - of_int n
      in if d < 1 / 2 then n else if 1 / 2 < d then n + 1 else if even n then n else n + 1)"

definition fl32 :: "rat \<Rightarrow> rat option" where
  "fl32 x =
     (if x = 0 then Some 0
      else
        let e = max (ilog2 \<bar>x\<bar>) (- 126);
            u = pow2 (e - 23);
            y = of_int (round_ties_even (x / u)) * u
        in if \<bar>y\<bar> < pow2 128 then Some y else None)"

definition f32_mul :: "rat option \<Rightarrow> rat option \<Rightarrow> rat option" where
  "f32_mul a b =
     (case a of None \<Rightarrow> None
      | Some x \<Rightarrow> (case b of None \<Rightarrow> None | Some y \<Rightarrow> fl32 (x * y)))"

definition f32_sub :: "rat option \<Rightarrow> rat option \<Rightarrow> rat option" where
  "f32_sub a b =
     (case a of None \<Rightarrow> None
      | Some x \<Rightarrow> (case b of None \<Rightarrow> None | Some y \<Rightarrow> fl32 (x - y)))"

definition f32_div :: "rat option \<Rightarrow> rat option \<Rightarrow> rat option" where
  "f32_div a b =
     (case a of None \<Rightarrow> None
      | Some x \<Rightarrow> (case b of None \<Rightarrow> None
                   | Some y \<Rightarrow> if y = 0 then None else fl32 (x / y)))"

text \<open>
  The conversion of a float to \<open>int\<close> drops the fraction; it is undefined when the float is
  not finite or the result does not fit.
\<close>

definition f32_trunc :: "rat option \<Rightarrow> int option" where
  "f32_trunc a =
     (case a of None \<Rightarrow> None
      | Some x \<Rightarrow>
          let t = (if x < 0 then - \<lfloor>- x\<rfloor> else \<lfloor>x\<rfloor>)
          in if int_range t then Some t else None)"


subsection \<open>Reference behaviour of the Cropper\<close>

text \<open>
  The Cropper as the specification words it: a pass-through when a requested size is not
  positive or both equal the grid's, otherwise the rectangle of the clamped size at the
  centred offsets. The offset of one axis is half of what the requested size leaves free,
  by truncating division, and never negative. Beside the grid stand the effective height
  and width.
\<close>

definition crop_offset :: "int \<Rightarrow> int \<Rightarrow> int" where
  "crop_offset extent requested = max 0 ((extent - requested) sdiv 2)"

definition cropper_reference :: "Mat \<Rightarrow> int \<Rightarrow> int \<Rightarrow> Mat \<times> int \<times> int" where
  "cropper_reference img H W =
     (if H \<le> 0 \<or> W \<le> 0 \<or> (H = int (rows img) \<and> W = int (cols img)) then (img, H, W)
      else
        let effectiveW = min W (int (cols img));
            effectiveH = min H (int (rows img));
            offsetX = crop_offset (int (cols img)) W;
            offsetY = crop_offset (int (rows img)) H
        in (\<lparr>rows = nat effectiveH, cols = nat effectiveW,
             pixel_at = (\<lambda>r c. pixel_at img (nat offsetY + r) (nat offsetX + c))\<rparr>,
            effectiveH, effectiveW))"

subsection \<open>The vocabulary of preprocessing steps\<close>

definition supported_steps :: "string list" where
  "supported_steps = [''subtract128'', ''normalize'', ''mean'', ''std'', ''bgrtorgb'']"

subsection \<open>Test inputs\<close>

text \<open>
  Modelled from the spec: \<open>caffe2::split\<close>, declared in \<open>caffe2/utils/string_utils.h\<close>, is
  not among the sources. The flags hold lists separated by commas (\<open>report_time\<close> by a
  bar); the model cuts the string at every separator, the way reading it with
  \<open>std::getline\<close> does, so that the empty string has no item and a separator at the very end
  adds none. Only the test environment uses this function: the theorems about the program
  hold for every \<open>split\<close>.
\<close>

fun split_items :: "char \<Rightarrow> string \<Rightarrow> string \<Rightarrow> string list" where
  "split_items sep item [] = (if item = [] then [] else [item])"
| "split_items sep item (c # cs) =
     (if c = sep then item # split_items sep [] cs else split_items sep (item @ [c]) cs)"

definition split_getline :: "char \<Rightarrow> string \<Rightarrow> string list" where
  "split_getline sep s = split_items sep [] s"

text \<open>An image of \<open>h\<close> rows and \<open>w\<close> columns whose samples are all different.\<close>

definition test_image :: "nat \<Rightarrow> nat \<Rightarrow> nat \<Rightarrow> Mat" where
  "test_image h w seed =
     \<lparr>rows = h, cols = w, pixel_at = (\<lambda>r c k. of_nat (seed + 40 * r + 10 * c + k))\<rparr>"

text \<open>Four files that decode, and the empty matrix of \<open>cv::imread\<close> for any other name.\<close>

definition test_imread :: "string \<Rightarrow> bool \<Rightarrow> Mat" where
  "test_imread name color =
     (if name = ''a.png'' then test_image 2 2 0
      else if name = ''b.png'' then test_image 2 2 100
      else if name = ''wide.png'' then test_image 2 3 0
      else if name = ''small.png'' then test_image 1 1 7
      else \<lparr>rows = 0, cols = 0, pixel_at = (\<lambda>r c k. 0)\<rparr>)"

text \<open>The values of \<open>std::stoi\<close> on the numbers that the test flags use.\<close>

definition test_stoi :: "string \<Rightarrow> int option" where
  "test_stoi s =
     (if s = ''-1'' then Some (- 1) else if s = ''1'' then Some 1
      else if s = ''2'' then Some 2 else if s = ''3'' then Some 3 else None)"

text \<open>
  The test environment: binary32 arithmetic, the files above, one file of input images, and
  sampling of the nearest pixel in place of the interpolation of \<open>cv::resize\<close>.
\<close>

definition test_env :: "rat option extern" where
  "test_env =
     \<lparr>fconst = fl32, fmul = f32_mul, fdiv = f32_div, fsub = f32_sub, ftrunc = f32_trunc,
      split = split_getline, stoi = test_stoi, imread = test_imread,
      resample = (\<lambda>src w h r c k. pixel_at src (r * rows src div h) (c * cols src div w) k),
      getlines = (\<lambda>name. if name = ''list.txt'' then [''a.png'', ''0,1,b.png''] else [])\<rparr>"

definition test_flags :: flags where
  "test_flags =
     \<lparr>FLAGS_color = True, FLAGS_crop = ''-1,-1'', FLAGS_input_images = ''a.png,b.png'',
      FLAGS_input_image_file = [], FLAGS_output_tensor = ''out.pb'',
      FLAGS_preprocess = ''subtract128'', FLAGS_report_time = [], FLAGS_scale = 0,
      FLAGS_text_output = False, FLAGS_warp = False\<rparr>"

text \<open>The test flags in grayscale mode.\<close>

definition gray_flags :: flags where
  "gray_flags = test_flags\<lparr>FLAGS_color := False\<rparr>"

text \<open>A colour image of one pixel with the raw channels 10, 20, 30.\<close>

definition bgr_image :: Mat where
  "bgr_image = \<lparr>rows = 1, cols = 1, pixel_at = (\<lambda>r c k. of_nat (10 * (k + 1)))\<rparr>"

section \<open>Properties\<close>

subsection \<open>The flag \<open>warp\<close>\<close>

lemma reportTime_warp:
  "reportTime env (fl\<lparr>FLAGS_warp := w\<rparr>) a b c = reportTime env fl a b c"
  by (simp add: reportTime_def)

lemma resizeImage_warp: "resizeImage env (fl\<lparr>FLAGS_warp := w\<rparr>) img = resizeImage env fl img"
  by (simp add: resizeImage_def)

lemma convertToVector_warp:
  "convertToVector env (fl\<lparr>FLAGS_warp := w\<rparr>) img = convertToVector env fl img"
  by (simp add: convertToVector_def Let_def cong: sum.case_cong)

lemma convertOneImage_warp:
  "convertOneImage env (fl\<lparr>FLAGS_warp := w\<rparr>) name = convertOneImage env fl name"
  by (simp add: convertOneImage_def reportTime_warp resizeImage_warp convertToVector_warp Let_def
      cong: sum.case_cong list.case_cong option.case_cong prod.case_cong if_cong)

lemma images_loop_warp:
  "images_loop env (fl\<lparr>FLAGS_warp := w\<rparr>) names h wd vs = images_loop env fl names h wd vs"
  by (induction names arbitrary: h wd vs)
    (simp_all add: convertOneImage_warp cong: sum.case_cong prod.case_cong if_cong)

lemma read_file_names_warp:
  "read_file_names env (fl\<lparr>FLAGS_warp := w\<rparr>) = read_file_names env fl"
  by (simp add: read_file_names_def)

text \<open>
  C10. Two runs whose flags differ only in \<open>warp\<close> end the same way: with the same error, or
  with the same tensor handed to the same writer for the same file. No function of the
  program reads the flag.
\<close>

theorem warp_flag_has_no_effect:
  "convertImages env (fl\<lparr>FLAGS_warp := w\<rparr>) = convertImages env fl"
  by (simp add: convertImages_def read_file_names_warp images_loop_warp reportTime_warp Let_def
      cong: sum.case_cong prod.case_cong)

theorem warp_flag_has_no_effect_witness:
  "convertImages test_env (test_flags\<lparr>FLAGS_warp := True\<rparr>) = convertImages test_env test_flags"
  using warp_flag_has_no_effect [where env = test_env and fl = test_flags and w = True] by simp

subsection \<open>The Cropper\<close>

lemma sdiv2_nonneg: "0 \<le> (d::int) \<Longrightarrow> d sdiv 2 = d div 2"
  by (simp add: signed_divide_int_def sgn_if)

lemma sdiv2_neg: "(d::int) < 0 \<Longrightarrow> d sdiv 2 \<le> 0"
  by (simp add: signed_divide_int_def sgn_if)

lemma crop_offset_bounds:
  "0 \<le> extent \<Longrightarrow> 0 \<le> crop_offset extent requested \<and>
     crop_offset extent requested + min requested extent \<le> extent"
proof (cases "requested \<le> extent")
  case True
  then have "(extent - requested) sdiv 2 = (extent - requested) div 2"
    by (simp add: sdiv2_nonneg)
  with True show ?thesis by (simp add: crop_offset_def)
next
  case False
  then have "(extent - requested) sdiv 2 \<le> 0" by (simp add: sdiv2_neg)
  with False show "0 \<le> extent \<Longrightarrow> ?thesis" by (simp add: crop_offset_def)
qed

text \<open>
  C3. \<open>cropToRec\<close> never fails and computes the reference behaviour, for the grid and for
  the effective height and width. The offsets are never negative and the rectangle ends
  inside the grid on both axes, so the assertion before the extraction holds; when a crop
  is requested (both sizes positive) the result has exactly the effective height and width.
\<close>

theorem cropToRec_is_reference:
  "cropToRec img H W = Inr (cropper_reference img H W) \<and>
   0 \<le> crop_offset (int (cols img)) W \<and>
   crop_offset (int (cols img)) W + min W (int (cols img)) \<le> int (cols img) \<and>
   0 \<le> crop_offset (int (rows img)) H \<and>
   crop_offset (int (rows img)) H + min H (int (rows img)) \<le> int (rows img) \<and>
   (0 < H \<and> 0 < W \<longrightarrow>
      int (rows (fst (cropper_reference img H W))) = min H (int (rows img)) \<and>
      int (cols (fst (cropper_reference img H W))) = min W (int (cols img)))"
proof -
  have bx: "0 \<le> crop_offset (int (cols img)) W \<and>
            crop_offset (int (cols img)) W + min W (int (cols img)) \<le> int (cols img)"
    by (rule crop_offset_bounds) simp
  have by': "0 \<le> crop_offset (int (rows img)) H \<and>
            crop_offset (int (rows img)) H + min H (int (rows img)) \<le> int (rows img)"
    by (rule crop_offset_bounds) simp
  have eq: "cropToRec img H W = Inr (cropper_reference img H W)"
  proof (cases "H \<le> 0 \<or> W \<le> 0 \<or> (H = int (rows img) \<and> W = int (cols img))")
    case True
    then show ?thesis by (auto simp: cropToRec_def cropper_reference_def)
  next
    case False
    have x: "(if (int (cols img) - W) sdiv 2 < 0 then 0 else (int (cols img) - W) sdiv 2)
               = crop_offset (int (cols img)) W"
      by (simp add: crop_offset_def max_def)
    have y: "(if (int (rows img) - H) sdiv 2 < 0 then 0 else (int (rows img) - H) sdiv 2)
               = crop_offset (int (rows img)) H"
      by (simp add: crop_offset_def max_def)
    have w: "(if W > int (cols img) then int (cols img) else W) = min W (int (cols img))"
      by (simp add: min_def)
    have h: "(if H > int (rows img) then int (rows img) else H) = min H (int (rows img))"
      by (simp add: min_def)
    from False have c: "H > 0 \<and> W > 0 \<and> (int (rows img) \<noteq> H \<or> int (cols img) \<noteq> W)"
      by auto
    from False have pos: "0 \<le> min W (int (cols img))" "0 \<le> min H (int (rows img))"
      by auto
    show ?thesis
      unfolding cropToRec_def cropper_reference_def Let_def x y w h
      using False c pos bx by' by auto
  qed
  have shape: "0 < H \<and> 0 < W \<longrightarrow>
      int (rows (fst (cropper_reference img H W))) = min H (int (rows img)) \<and>
      int (cols (fst (cropper_reference img H W))) = min W (int (cols img))"
    by (auto simp: cropper_reference_def Let_def)
  from eq bx by' shape show ?thesis by blast
qed

theorem cropToRec_is_reference_witness:
  "cropToRec (test_image 4 5 0) 2 3 = Inr (cropper_reference (test_image 4 5 0) 2 3) \<and>
   crop_offset 5 3 = 1 \<and> crop_offset 4 2 = 1 \<and>
   int (rows (fst (cropper_reference (test_image 4 5 0) 2 3))) = 2 \<and>
   int (cols (fst (cropper_reference (test_image 4 5 0) 2 3))) = 3"
  using cropToRec_is_reference [of "test_image 4 5 0" 2 3]
  by (simp add: test_image_def crop_offset_def sdiv2_nonneg)

subsection \<open>The loop over the steps\<close>

lemma apply_step_supported:
  "step \<in> set supported_steps \<Longrightarrow> \<exists>st'. apply_step env st step = Inr st'"
  by (auto simp: supported_steps_def apply_step_def)

lemma apply_step_unsupported:
  "step \<notin> set supported_steps \<Longrightarrow> \<exists>msg. apply_step env st step = Inl (EnforceNotMet msg)"
  by (simp add: supported_steps_def apply_step_def)

lemma apply_step_error: "apply_step env st step = Inl e \<Longrightarrow> \<exists>msg. e = EnforceNotMet msg"
  by (auto simp: apply_step_def split: if_splits)

lemma steps_loop_unsupported:
  "s \<in> set steps \<Longrightarrow> s \<notin> set supported_steps \<Longrightarrow>
     \<exists>msg. steps_loop env steps st = Inl (EnforceNotMet msg)"
proof (induction steps arbitrary: st)
  case Nil
  then show ?case by simp
next
  case (Cons step steps)
  show ?case
  proof (cases "apply_step env st step")
    case (Inl e)
    then show ?thesis using apply_step_error [OF Inl] by auto
  next
    case (Inr st')
    with apply_step_unsupported [of step env st] have "step \<in> set supported_steps" by auto
    with Cons.prems have "s \<in> set steps" by auto
    from Cons.IH [OF this Cons.prems(2)] Inr show ?thesis by simp
  qed
qed

text \<open>
  C8. When a step of the list is not one of the five supported names, \<open>convertToVector\<close>
  never returns a vector: it ends in an error, and (the pixel count fitting an \<open>int\<close>, so
  that the loop over the steps is reached) the error is the failing \<open>CAFFE_ENFORCE\<close>.
\<close>

theorem unsupported_step_is_fatal:
  assumes "s \<in> set (split env CHR '','' (FLAGS_preprocess fl))" and "s \<notin> set supported_steps"
  shows "(\<exists>e. convertToVector env fl img = Inl e) \<and>
         (int_range (int (cols img) * int (rows img)) \<longrightarrow>
            (\<exists>msg. convertToVector env fl img = Inl (EnforceNotMet msg)))"
proof -
  from steps_loop_unsupported [OF assms]
  obtain msg where
    "steps_loop env (split env CHR '','' (FLAGS_preprocess fl)) (initial_prep env) = Inl (EnforceNotMet msg)"
    by blast
  then show ?thesis by (simp add: convertToVector_def Let_def)
qed

lemma test_split_swaprb:
  "split test_env CHR '','' ''subtract128,swaprb'' = [''subtract128'', ''swaprb'']"
  by (simp add: test_env_def split_getline_def)

theorem unsupported_step_is_fatal_witness:
  "''swaprb'' \<in> set (split test_env CHR '','' (FLAGS_preprocess (test_flags\<lparr>FLAGS_preprocess := ''subtract128,swaprb''\<rparr>))) \<and>
   ''swaprb'' \<notin> set supported_steps \<and>
   int_range (int (cols (test_image 2 2 0)) * int (rows (test_image 2 2 0))) \<and>
   (\<exists>msg. convertToVector test_env (test_flags\<lparr>FLAGS_preprocess := ''subtract128,swaprb''\<rparr>) (test_image 2 2 0)
            = Inl (EnforceNotMet msg))"
proof -
  have a: "''swaprb'' \<in> set (split test_env CHR '','' (FLAGS_preprocess (test_flags\<lparr>FLAGS_preprocess := ''subtract128,swaprb''\<rparr>)))"
    by (simp add: test_split_swaprb)
  have b: "''swaprb'' \<notin> set supported_steps" by (simp add: supported_steps_def)
  have c: "int_range (int (cols (test_image 2 2 0)) * int (rows (test_image 2 2 0)))"
    by (simp add: test_image_def int_range_def)
  from unsupported_step_is_fatal [OF a b, of "test_image 2 2 0"] a b c show ?thesis by blast
qed

subsection \<open>subtract128 then normalize\<close>

lemma steps_loop_append:
  "steps_loop env (xs @ ys) st =
     (case steps_loop env xs st of Inl e \<Rightarrow> Inl e | Inr st' \<Rightarrow> steps_loop env ys st')"
  by (induction xs arbitrary: st) (auto split: sum.splits)

lemma steps_loop_supported:
  "set steps \<subseteq> set supported_steps \<Longrightarrow> \<exists>st'. steps_loop env steps st = Inr st'"
proof (induction steps arbitrary: st)
  case Nil
  then show ?case by simp
next
  case (Cons step steps)
  then obtain st1 where "apply_step env st step = Inr st1"
    using apply_step_supported [of step env st] by auto
  with Cons show ?case by simp
qed

lemma steps_loop_normalize_only:
  "set post \<subseteq> {''normalize'', ''bgrtorgb''} \<Longrightarrow>
     \<exists>st'. steps_loop env post st = Inr st' \<and> mean st' = mean st \<and> std st' = std st \<and>
       normalize_vec st' =
         (if ''normalize'' \<in> set post then [fconst env 255, fconst env 255, fconst env 255]
          else normalize_vec st)"
proof (induction post arbitrary: st)
  case Nil
  then show ?case by simp
next
  case (Cons step post)
  then have step: "step = ''normalize'' \<or> step = ''bgrtorgb''" and post: "set post \<subseteq> {''normalize'', ''bgrtorgb''}"
    by auto
  from step show ?case
  proof
    assume s: "step = ''normalize''"
    from Cons.IH [OF post, of "st\<lparr>normalize_vec := [fconst env 255, fconst env 255, fconst env 255]\<rparr>"]
    show ?thesis by (auto simp: s apply_step_def)
  next
    assume s: "step = ''bgrtorgb''"
    from Cons.IH [OF post, of "st\<lparr>bgrtorgb := True\<rparr>"]
    show ?thesis by (auto simp: s apply_step_def)
  qed
qed

text \<open>
  C7, as amended. For a list of supported steps in which a \<open>subtract128\<close> is followed only
  by \<open>normalize\<close> and \<open>bgrtorgb\<close> steps, among them at least one \<open>normalize\<close>, the state
  after all steps has normalize = (255,255,255), mean = (128,128,128) and std = (1,1,1).
  A \<open>mean\<close>, \<open>std\<close> or \<open>subtract128\<close> step after it would assign its own fields again, as
  the list subtract128, mean, normalize shows below.
\<close>

theorem subtract128_then_normalize:
  assumes "set pre \<subseteq> set supported_steps"
    and "set post \<subseteq> {''normalize'', ''bgrtorgb''}"
    and "''normalize'' \<in> set post"
  shows "\<exists>st. steps_loop env (pre @ ''subtract128'' # post) (initial_prep env) = Inr st \<and>
           normalize_vec st = [fconst env 255, fconst env 255, fconst env 255] \<and>
           mean st = [fconst env 128, fconst env 128, fconst env 128] \<and>
           std st = [fconst env 1, fconst env 1, fconst env 1]"
proof -
  from steps_loop_supported [OF assms(1)]
  obtain st0 where st0: "steps_loop env pre (initial_prep env) = Inr st0" by blast
  define st1 where "st1 = st0\<lparr>mean := [fconst env 128, fconst env 128, fconst env 128],
                std := [fconst env 1, fconst env 1, fconst env 1],
                normalize_vec := [fconst env 1, fconst env 1, fconst env 1]\<rparr>"
  have step: "apply_step env st0 ''subtract128'' = Inr st1"
    by (simp add: apply_step_def st1_def)
  from steps_loop_normalize_only [OF assms(2), of env st1] assms(3)
  obtain st where "steps_loop env post st1 = Inr st" "mean st = mean st1" "std st = std st1"
    "normalize_vec st = [fconst env 255, fconst env 255, fconst env 255]"
    by auto
  with st0 step show ?thesis by (simp add: steps_loop_append st1_def)
qed

theorem subtract128_then_normalize_witness:
  "set [''mean'', ''std''] \<subseteq> set supported_steps \<and>
   set [''bgrtorgb'', ''normalize''] \<subseteq> {''normalize'', ''bgrtorgb''} \<and>
   ''normalize'' \<in> set [''bgrtorgb'', ''normalize''] \<and>
   (\<exists>st. steps_loop test_env [''mean'', ''std'', ''subtract128'', ''bgrtorgb'', ''normalize'']
            (initial_prep test_env) = Inr st \<and>
         normalize_vec st = [Some 255, Some 255, Some 255] \<and>
         mean st = [Some 128, Some 128, Some 128] \<and>
         std st = [Some 1, Some 1, Some 1])"
proof -
  have a: "set [''mean'', ''std''] \<subseteq> set supported_steps" by (simp add: supported_steps_def)
  have b: "set [''bgrtorgb'', ''normalize''] \<subseteq> {''normalize'', ''bgrtorgb''}" by simp
  have c: "''normalize'' \<in> set [''bgrtorgb'', ''normalize'']" by simp
  have f: "fconst test_env 255 = Some 255" "fconst test_env 128 = Some 128" "fconst test_env 1 = Some 1"
    unfolding test_env_def by (simp, code_simp)+
  from subtract128_then_normalize [OF a b c, of test_env] a b c show ?thesis
    by (simp add: f)
qed

theorem later_steps_override_counterexample:
  "map_sum id mean (steps_loop test_env [''subtract128'', ''mean'', ''normalize''] (initial_prep test_env))
     = Inr [Some (13623099 / 33554432), Some (15300821 / 33554432), Some (4068475 / 8388608)] \<and>
   [fconst test_env 128, fconst test_env 128, fconst test_env 128]
     = [Some 128, Some 128, Some 128]"
  by code_simp

subsection \<open>The traversal of a matrix\<close>

lemma length_concat_rows:
  "length (concat (map (\<lambda>r. map (f r) [0..<w]) [0..<h])) = h * w"
  by (induction h) simp_all

lemma nth_concat_rows:
  "r < h \<Longrightarrow> c < w \<Longrightarrow> concat (map (\<lambda>r. map (f r) [0..<w]) [0..<h]) ! (r * w + c) = f r c"
proof (induction h)
  case 0
  then show ?case by simp
next
  case (Suc h)
  show ?case
  proof (cases "r < h")
    case True
    then have "r * w + c < h * w"
      using Suc.prems(2) by (metis add.commute mult_Suc less_le_trans add_less_cancel_left Suc_leI mult_le_mono1)
    with True Suc show ?thesis by (simp add: nth_append length_concat_rows)
  next
    case False
    with Suc.prems have "r = h" by simp
    with Suc.prems show ?thesis by (simp add: nth_append length_concat_rows)
  qed
qed

lemma length_pixels: "length (pixels img) = rows img * cols img"
  by (simp add: pixels_def length_concat_rows)

lemma nth_pixels:
  "r < rows img \<Longrightarrow> c < cols img \<Longrightarrow> pixels img ! (r * cols img + c) = pixel_at img r c"
  unfolding pixels_def by (rule nth_concat_rows)

lemma pixel_index_less: "r < h \<Longrightarrow> c < w \<Longrightarrow> r * w + c < h * (w::nat)"
proof -
  assume "r < h" "c < w"
  then have "r * w + c < r * w + w" by simp
  also have "\<dots> = Suc r * w" by simp
  also from \<open>r < h\<close> have "\<dots> \<le> h * w" by (intro mult_le_mono1) simp
  finally show ?thesis .
qed

subsection \<open>The two loops over the pixels\<close>

lemma length_gray_loop: "length (gray_loop env st ps idx vals) = length vals"
  by (induction ps arbitrary: idx vals) simp_all

lemma gray_loop_nth:
  "idx + length ps \<le> length vals \<Longrightarrow> j < length vals \<Longrightarrow>
     gray_loop env st ps idx vals ! j =
       (if idx \<le> j \<and> j < idx + length ps then norm_value env st 0 ((ps ! (j - idx)) 0)
        else vals ! j)"
proof (induction ps arbitrary: idx vals)
  case Nil
  then show ?case by auto
next
  case (Cons p ps)
  from Cons.prems have "Suc idx + length ps \<le> length (vals[idx := norm_value env st 0 (p 0)])"
    and "j < length (vals[idx := norm_value env st 0 (p 0)])" by simp_all
  from Cons.IH [OF this] Cons.prems show ?case
    by (auto simp: nth_list_update nth_Cons' Suc_diff_le)
qed

lemma length_color_loop: "length (color_loop env st n b g r ps i vals) = length vals"
  by (induction ps arbitrary: i vals) (simp_all add: Let_def)

lemma color_loop_nth:
  "i + length ps \<le> n \<Longrightarrow> length vals = 3 * n \<Longrightarrow> j < 3 * n \<Longrightarrow>
     color_loop env st n b g r ps i vals ! j =
       (if i \<le> j \<and> j < i + length ps then norm_value env st 0 ((ps ! (j - i)) b)
        else if n + i \<le> j \<and> j < n + i + length ps then norm_value env st 1 ((ps ! (j - (n + i))) g)
        else if n + n + i \<le> j \<and> j < n + n + i + length ps
             then norm_value env st 2 ((ps ! (j - (n + n + i))) r)
        else vals ! j)"
proof (induction ps arbitrary: i vals)
  case Nil
  then show ?case by auto
next
  case (Cons p ps)
  let ?v = "vals[i := norm_value env st 0 (p b), n + i := norm_value env st 1 (p g),
                   n + (n + i) := norm_value env st 2 (p r)]"
  from Cons.prems have a: "Suc i + length ps \<le> n" and b: "length ?v = 3 * n" by simp_all
  have step: "color_loop env st n b g r (p # ps) i vals = color_loop env st n b g r ps (Suc i) ?v"
    by (simp add: Let_def)
  note IH = Cons.IH [OF a b Cons.prems(3)]
  consider (lo) "j = i" | (mid) "j = n + i" | (hi) "j = n + n + i"
    | (other) "j \<noteq> i" "j \<noteq> n + i" "j \<noteq> n + n + i" by blast
  then show ?case
  proof cases
    case lo
    with Cons.prems show ?thesis unfolding step IH by (simp add: nth_list_update)
  next
    case mid
    with Cons.prems show ?thesis unfolding step IH by (simp add: nth_list_update)
  next
    case hi
    with Cons.prems show ?thesis unfolding step IH by (simp add: nth_list_update)
  next
    case other
    with Cons.prems show ?thesis unfolding step IH
      by (auto simp: nth_list_update nth_Cons' Suc_diff_le)
  qed
qed

subsection \<open>The layout of the vector\<close>

lemma convertToVector_planes:
  assumes steps: "steps_loop env (split env CHR '','' (FLAGS_preprocess fl)) (initial_prep env) = Inr st"
    and fits: "(if FLAGS_color fl then 3 else 1) * (int (cols img) * int (rows img)) < 2 ^ 31"
  shows "\<exists>vals. convertToVector env fl img = Inr vals \<and>
     (FLAGS_color fl \<longrightarrow>
        length vals = 3 * (rows img * cols img) \<and>
        (\<forall>k<3. \<forall>r<rows img. \<forall>c<cols img.
           vals ! (k * (rows img * cols img) + (r * cols img + c)) =
             norm_value env st k (pixel_at img r c (if bgrtorgb st then 2 - k else k)))) \<and>
     (\<not> FLAGS_color fl \<longrightarrow>
        length vals = rows img * cols img \<and>
        (\<forall>r<rows img. \<forall>c<cols img.
           vals ! (r * cols img + c) = norm_value env st 0 (pixel_at img r c 0)))"
proof -
  let ?n = "rows img * cols img"
  have nat1: "nat (int (cols img) * int (rows img)) = ?n"
    by (simp add: nat_mult_distrib mult.commute)
  have nat3: "nat (3 * (int (cols img) * int (rows img))) = 3 * ?n"
    by (simp add: nat_mult_distrib mult.commute)
  have nn: "- (2 ^ 31) \<le> int (cols img) * int (rows img)"
    by (rule order_trans [of _ 0]) simp_all
  have nn3: "- (2 ^ 31) \<le> 3 * (int (cols img) * int (rows img))"
    by (rule order_trans [of _ 0]) simp_all
  from fits have "int (cols img) * int (rows img) < 2 ^ 31"
    by (cases "FLAGS_color fl") simp_all
  with nn have r1: "int_range (int (cols img) * int (rows img))"
    unfolding int_range_def by blast
  show ?thesis
  proof (cases "FLAGS_color fl")
    case False
    let ?vals = "gray_loop env st (pixels img) 0 (replicate ?n (fconst env 0))"
    from False fits have conv: "convertToVector env fl img = Inr ?vals"
      using r1 steps by (simp add: convertToVector_def Let_def nat1)
    have len: "length ?vals = ?n" by (simp add: length_gray_loop)
    have "?vals ! (r * cols img + c) = norm_value env st 0 (pixel_at img r c 0)"
      if "r < rows img" "c < cols img" for r c
    proof -
      from that have lt: "r * cols img + c < ?n" by (rule pixel_index_less)
      then show ?thesis
        by (simp add: gray_loop_nth length_pixels nth_pixels that)
    qed
    with False conv len show ?thesis by simp
  next
    case True
    let ?b = "if bgrtorgb st then 2 else 0 :: nat"
    let ?r = "if bgrtorgb st then 0 else 2 :: nat"
    let ?vals = "color_loop env st ?n ?b 1 ?r (pixels img) 0 (replicate (3 * ?n) (fconst env 0))"
    from True fits nn3 have r3: "int_range (3 * (int (cols img) * int (rows img)))"
      unfolding int_range_def by simp
    from True have conv: "convertToVector env fl img = Inr ?vals"
      using r1 r3 steps by (simp add: convertToVector_def Let_def nat1 nat3)
    have len: "length ?vals = 3 * ?n" by (simp add: length_color_loop)
    have "?vals ! (k * ?n + (r * cols img + c)) =
            norm_value env st k (pixel_at img r c (if bgrtorgb st then 2 - k else k))"
      if "k < 3" "r < rows img" "c < cols img" for k r c
    proof -
      from that have lt: "r * cols img + c < ?n" by (intro pixel_index_less)
      let ?x = "r * cols img + c"
      have px: "pixels img ! ?x = pixel_at img r c" using that by (simp add: nth_pixels)
      have loop: "?vals ! j =
         (if 0 \<le> j \<and> j < 0 + length (pixels img)
          then norm_value env st 0 ((pixels img ! (j - 0)) ?b)
          else if ?n + 0 \<le> j \<and> j < ?n + 0 + length (pixels img)
          then norm_value env st 1 ((pixels img ! (j - (?n + 0))) 1)
          else if ?n + ?n + 0 \<le> j \<and> j < ?n + ?n + 0 + length (pixels img)
          then norm_value env st 2 ((pixels img ! (j - (?n + ?n + 0))) ?r)
          else replicate (3 * ?n) (fconst env 0) ! j)" if "j < 3 * ?n" for j
        by (rule color_loop_nth) (simp_all add: length_pixels that)
      from \<open>k < 3\<close> consider "k = 0" | "k = 1" | "k = 2" by linarith
      then show ?thesis
      proof cases
        case 1
        from lt have "?x < 3 * ?n" by linarith
        from loop [OF this] lt px show ?thesis by (simp add: 1 length_pixels)
      next
        case 2
        from lt have "?n + ?x < 3 * ?n" by linarith
        from loop [OF this] lt px show ?thesis by (simp add: 2 length_pixels)
      next
        case 3
        from lt have "?n + ?n + ?x < 3 * ?n" by linarith
        from loop [OF this] lt px show ?thesis by (simp add: 3 length_pixels mult_2 add.assoc)
      qed
    qed
    with True conv len show ?thesis by simp
  qed
qed


text \<open>
  C1. Let the steps of the flag run without error to the state \<open>st\<close>, and let the number of
  floats fit an \<open>int\<close>. Then \<open>convertToVector\<close> returns a vector. In colour mode it has three
  planes of rows times cols values, the plane of output channel 0 first; the value of output
  channel \<open>k\<close> at row \<open>r\<close> and column \<open>c\<close> stands at position \<open>r * cols + c\<close> of plane \<open>k\<close>
  and is \<open>(src / normalize[k] - mean[k]) / std[k]\<close> in float arithmetic, where \<open>src\<close> is the
  raw channel \<open>k\<close> of that pixel, or the raw channel \<open>2 - k\<close> when the swap flag is set. In
  grayscale mode it is a single plane, computed with the parameters of index 0. The
  statement spells the float expression out with the operations of the environment.
\<close>

theorem convertToVector_layout:
  assumes steps: "steps_loop env (split env CHR '','' (FLAGS_preprocess fl)) (initial_prep env) = Inr st"
    and fits: "(if FLAGS_color fl then 3 else 1) * (int (cols img) * int (rows img)) < 2 ^ 31"
  shows "\<exists>vals. convertToVector env fl img = Inr vals \<and>
     (FLAGS_color fl \<longrightarrow>
        length vals = 3 * (rows img * cols img) \<and>
        (\<forall>k<3. \<forall>r<rows img. \<forall>c<cols img.
           vals ! (k * (rows img * cols img) + (r * cols img + c)) =
             fdiv env
               (fsub env
                  (fdiv env
                     (fconst env
                        (of_nat (unat (pixel_at img r c (if bgrtorgb st then 2 - k else k)))))
                     (normalize_vec st ! k))
                  (mean st ! k))
               (std st ! k))) \<and>
     (\<not> FLAGS_color fl \<longrightarrow>
        length vals = rows img * cols img \<and>
        (\<forall>r<rows img. \<forall>c<cols img.
           vals ! (r * cols img + c) =
             fdiv env
               (fsub env
                  (fdiv env (fconst env (of_nat (unat (pixel_at img r c 0))))
                     (normalize_vec st ! 0))
                  (mean st ! 0))
               (std st ! 0)))"
  using convertToVector_planes [OF steps fits] by (simp add: norm_value_def)

lemma test_steps_bgrtorgb:
  "steps_loop test_env (split test_env CHR '','' (FLAGS_preprocess (test_flags\<lparr>FLAGS_preprocess := ''bgrtorgb''\<rparr>)))
     (initial_prep test_env) =
   Inr \<lparr>normalize_vec = [Some 1, Some 1, Some 1], mean = [Some 0, Some 0, Some 0],
        std = [Some 1, Some 1, Some 1], bgrtorgb = True\<rparr>"
  by code_simp

lemma test_steps_all:
  "steps_loop test_env (split test_env CHR '','' (FLAGS_preprocess (test_flags\<lparr>FLAGS_preprocess := ''normalize,mean,std,bgrtorgb''\<rparr>)))
     (initial_prep test_env) =
   Inr \<lparr>normalize_vec = [Some 255, Some 255, Some 255],
        mean = [Some (13623099 / 33554432), Some (15300821 / 33554432), Some (4068475 / 8388608)],
        std = [Some (7549747 / 33554432), Some (7516193 / 33554432), Some (7683965 / 33554432)],
        bgrtorgb = True\<rparr>"
  by code_simp

lemma test_vectors:
  "convertToVector test_env (test_flags\<lparr>FLAGS_preprocess := ''normalize,mean,std,bgrtorgb''\<rparr>) (test_image 1 2 0) =
     Inr [Some (- (3711091 / 2097152)), Some (- (13382297 / 8388608)),
         Some (- (8464975 / 4194304)), Some (- (3865339 / 2097152)),
         Some (- (8883133 / 4194304)), Some (- (8164869 / 4194304))]"
  "convertToVector test_env (test_flags\<lparr>FLAGS_preprocess := ''bgrtorgb''\<rparr>) bgr_image = Inr [Some 30, Some 20, Some 10]"
  by code_simp+

theorem convertToVector_layout_witness:
  "steps_loop test_env (split test_env CHR '','' (FLAGS_preprocess (test_flags\<lparr>FLAGS_preprocess := ''normalize,mean,std,bgrtorgb''\<rparr>)))
     (initial_prep test_env) =
   Inr \<lparr>normalize_vec = [Some 255, Some 255, Some 255],
        mean = [Some (13623099 / 33554432), Some (15300821 / 33554432), Some (4068475 / 8388608)],
        std = [Some (7549747 / 33554432), Some (7516193 / 33554432), Some (7683965 / 33554432)],
        bgrtorgb = True\<rparr> \<and>
   (if FLAGS_color (test_flags\<lparr>FLAGS_preprocess := ''normalize,mean,std,bgrtorgb''\<rparr>) then 3 else 1) *
      (int (cols (test_image 1 2 0)) * int (rows (test_image 1 2 0))) < 2 ^ 31 \<and>
   convertToVector test_env (test_flags\<lparr>FLAGS_preprocess := ''normalize,mean,std,bgrtorgb''\<rparr>) (test_image 1 2 0) =
     Inr [Some (- (3711091 / 2097152)), Some (- (13382297 / 8388608)),
         Some (- (8464975 / 4194304)), Some (- (3865339 / 2097152)),
         Some (- (8883133 / 4194304)), Some (- (8164869 / 4194304))] \<and>
   [Some (- (3711091 / 2097152)), Some (- (13382297 / 8388608)),
         Some (- (8464975 / 4194304)), Some (- (3865339 / 2097152)),
         Some (- (8883133 / 4194304)), Some (- (8164869 / 4194304))] ! 1 =
     fdiv test_env
       (fsub test_env
          (fdiv test_env (fconst test_env (of_nat (unat (pixel_at (test_image 1 2 0) 0 1 2))))
             (Some 255))
          (Some (13623099 / 33554432)))
       (Some (7549747 / 33554432)) \<and>
   [Some (- (3711091 / 2097152)), Some (- (13382297 / 8388608)),
         Some (- (8464975 / 4194304)), Some (- (3865339 / 2097152)),
         Some (- (8883133 / 4194304)), Some (- (8164869 / 4194304))] ! 5 =
     fdiv test_env
       (fsub test_env
          (fdiv test_env (fconst test_env (of_nat (unat (pixel_at (test_image 1 2 0) 0 1 0))))
             (Some 255))
          (Some (4068475 / 8388608)))
       (Some (7683965 / 33554432)) \<and>
   [pixel_at bgr_image 0 0 0, pixel_at bgr_image 0 0 1, pixel_at bgr_image 0 0 2] = [10, 20, 30] \<and>
   steps_loop test_env (split test_env CHR '','' (FLAGS_preprocess (test_flags\<lparr>FLAGS_preprocess := ''bgrtorgb''\<rparr>)))
     (initial_prep test_env) =
   Inr \<lparr>normalize_vec = [Some 1, Some 1, Some 1], mean = [Some 0, Some 0, Some 0],
        std = [Some 1, Some 1, Some 1], bgrtorgb = True\<rparr> \<and>
   convertToVector test_env (test_flags\<lparr>FLAGS_preprocess := ''bgrtorgb''\<rparr>) bgr_image = Inr [Some 30, Some 20, Some 10] \<and>
   [Some 30, Some 20, Some 10] ! 0 =
     fdiv test_env
       (fsub test_env
          (fdiv test_env (fconst test_env (of_nat (unat (pixel_at bgr_image 0 0 2)))) (Some 1))
          (Some 0))
       (Some 1)"
proof -
  let ?fl = "test_flags\<lparr>FLAGS_preprocess := ''normalize,mean,std,bgrtorgb''\<rparr>" and ?img = "test_image 1 2 0"
  let ?st = "\<lparr>normalize_vec = [Some 255, Some 255, Some 255],
        mean = [Some (13623099 / 33554432), Some (15300821 / 33554432), Some (4068475 / 8388608)],
        std = [Some (7549747 / 33554432), Some (7516193 / 33554432), Some (7683965 / 33554432)],
        bgrtorgb = True\<rparr> :: rat option prep"
  let ?lit = "[Some (- (3711091 / 2097152)), Some (- (13382297 / 8388608)),
         Some (- (8464975 / 4194304)), Some (- (3865339 / 2097152)),
         Some (- (8883133 / 4194304)), Some (- (8164869 / 4194304))] :: rat option list"
  have fits: "(if FLAGS_color ?fl then 3 else 1) * (int (cols ?img) * int (rows ?img)) < 2 ^ 31"
    by (simp add: test_image_def test_flags_def)
  have color: "FLAGS_color ?fl" by (simp add: test_flags_def)
  from convertToVector_layout [OF test_steps_all fits] color test_vectors(1)
  have nth: "\<forall>k<3. \<forall>r<rows ?img. \<forall>c<cols ?img.
      ?lit ! (k * (rows ?img * cols ?img) + (r * cols ?img + c)) =
        fdiv test_env
          (fsub test_env
             (fdiv test_env
                (fconst test_env (of_nat (unat (pixel_at ?img r c (if bgrtorgb ?st then 2 - k else k)))))
                (normalize_vec ?st ! k))
             (mean ?st ! k))
          (std ?st ! k)"
    by auto
  have rc: "rows ?img = 1" "cols ?img = 2" by (simp_all add: test_image_def)
  from nth [rule_format, of 0 0 1] have v1: "?lit ! 1 =
     fdiv test_env
       (fsub test_env
          (fdiv test_env (fconst test_env (of_nat (unat (pixel_at ?img 0 1 2)))) (Some 255))
          (Some (13623099 / 33554432)))
       (Some (7549747 / 33554432))"
    unfolding rc by simp
  from nth [rule_format, of 2 0 1] have v5: "?lit ! 5 =
     fdiv test_env
       (fsub test_env
          (fdiv test_env (fconst test_env (of_nat (unat (pixel_at ?img 0 1 0)))) (Some 255))
          (Some (4068475 / 8388608)))
       (Some (7683965 / 33554432))"
    unfolding rc by simp
  let ?sw = "test_flags\<lparr>FLAGS_preprocess := ''bgrtorgb''\<rparr>"
  let ?st1 = "\<lparr>normalize_vec = [Some 1, Some 1, Some 1], mean = [Some 0, Some 0, Some 0],
        std = [Some 1, Some 1, Some 1], bgrtorgb = True\<rparr> :: rat option prep"
  have fits1: "(if FLAGS_color ?sw then 3 else 1) * (int (cols bgr_image) * int (rows bgr_image)) < 2 ^ 31"
    by (simp add: bgr_image_def test_flags_def)
  have color1: "FLAGS_color ?sw" by (simp add: test_flags_def)
  have px: "[pixel_at bgr_image 0 0 0, pixel_at bgr_image 0 0 1, pixel_at bgr_image 0 0 2] = [10, 20, 30]"
    by (simp add: bgr_image_def)
  have rc1: "rows bgr_image = 1" "cols bgr_image = 1" by (simp_all add: bgr_image_def)
  from convertToVector_layout [OF test_steps_bgrtorgb fits1] color1 test_vectors(2)
  have nth1: "\<forall>k<3. \<forall>r<rows bgr_image. \<forall>c<cols bgr_image.
      [Some 30, Some 20, Some 10 :: rat option] ! (k * (rows bgr_image * cols bgr_image) + (r * cols bgr_image + c)) =
        fdiv test_env
          (fsub test_env
             (fdiv test_env
                (fconst test_env (of_nat (unat (pixel_at bgr_image r c (if bgrtorgb ?st1 then 2 - k else k)))))
                (normalize_vec ?st1 ! k))
             (mean ?st1 ! k))
          (std ?st1 ! k)"
    by auto
  from nth1 [rule_format, of 0 0 0] have w0: "[Some 30, Some 20, Some 10 :: rat option] ! 0 =
     fdiv test_env
       (fsub test_env
          (fdiv test_env (fconst test_env (of_nat (unat (pixel_at bgr_image 0 0 2)))) (Some 1))
          (Some 0))
       (Some 1)"
    unfolding rc1 by simp
  from test_steps_all fits test_vectors v1 v5 px test_steps_bgrtorgb w0 show ?thesis
    by (intro conjI)
qed

subsection \<open>The two input options\<close>

lemma reportTime_input_file:
  "reportTime env (fl\<lparr>FLAGS_input_image_file := x\<rparr>) a b c = reportTime env fl a b c"
  by (simp add: reportTime_def)

lemma resizeImage_input_file:
  "resizeImage env (fl\<lparr>FLAGS_input_image_file := x\<rparr>) img = resizeImage env fl img"
  by (simp add: resizeImage_def)

lemma convertToVector_input_file:
  "convertToVector env (fl\<lparr>FLAGS_input_image_file := x\<rparr>) img = convertToVector env fl img"
  by (simp add: convertToVector_def Let_def cong: sum.case_cong)

lemma convertOneImage_input_file:
  "convertOneImage env (fl\<lparr>FLAGS_input_image_file := x\<rparr>) name = convertOneImage env fl name"
  by (simp add: convertOneImage_def reportTime_input_file resizeImage_input_file
      convertToVector_input_file Let_def
      cong: sum.case_cong list.case_cong option.case_cong prod.case_cong if_cong)

lemma images_loop_input_file:
  "images_loop env (fl\<lparr>FLAGS_input_image_file := x\<rparr>) names h wd vs = images_loop env fl names h wd vs"
  by (induction names arbitrary: h wd vs)
    (simp_all add: convertOneImage_input_file cong: sum.case_cong prod.case_cong if_cong)

text \<open>
  C9, as amended. With neither input option the run ends in the failing \<open>assert(false)\<close>,
  whatever the environment is, so before any image is read. With a non-empty list of
  images the names are the items of that list, and the run is the same whatever the file
  option holds: giving both options is not an error, the list wins.
\<close>

theorem input_source_selection:
  "(FLAGS_input_images fl = [] \<and> FLAGS_input_image_file fl = [] \<longrightarrow>
      convertImages env fl = Inl (AssertionFailed ''false'')) \<and>
   (FLAGS_input_images fl \<noteq> [] \<longrightarrow>
      read_file_names env fl = Inr (split env CHR '','' (FLAGS_input_images fl)) \<and>
      convertImages env (fl\<lparr>FLAGS_input_image_file := other\<rparr>) = convertImages env fl)"
proof (intro conjI impI)
  assume "FLAGS_input_images fl = [] \<and> FLAGS_input_image_file fl = []"
  then show "convertImages env fl = Inl (AssertionFailed ''false'')"
    by (simp add: convertImages_def read_file_names_def)
next
  assume "FLAGS_input_images fl \<noteq> []"
  then show "read_file_names env fl = Inr (split env CHR '','' (FLAGS_input_images fl))"
    by (simp add: read_file_names_def)
next
  assume a: "FLAGS_input_images fl \<noteq> []"
  then have "read_file_names env (fl\<lparr>FLAGS_input_image_file := other\<rparr>) = read_file_names env fl"
    by (simp add: read_file_names_def)
  then show "convertImages env (fl\<lparr>FLAGS_input_image_file := other\<rparr>) = convertImages env fl"
    by (simp add: convertImages_def images_loop_input_file reportTime_input_file Let_def
        cong: sum.case_cong prod.case_cong)
qed

theorem input_source_selection_witness:
  "FLAGS_input_images (test_flags\<lparr>FLAGS_input_images := []\<rparr>) = [] \<and>
   FLAGS_input_image_file (test_flags\<lparr>FLAGS_input_images := []\<rparr>) = [] \<and>
   convertImages test_env (test_flags\<lparr>FLAGS_input_images := []\<rparr>) = Inl (AssertionFailed ''false'') \<and>
   FLAGS_input_images test_flags \<noteq> [] \<and>
   convertImages test_env (test_flags\<lparr>FLAGS_input_image_file := ''list.txt''\<rparr>)
     = convertImages test_env test_flags"
  using input_source_selection [where env = test_env and fl = "test_flags\<lparr>FLAGS_input_images := []\<rparr>"]
    input_source_selection [where env = test_env and fl = test_flags and other = "''list.txt''"]
  by (simp add: test_flags_def)

theorem both_input_options_counterexample:
  "convertImages test_env
     (test_flags\<lparr>FLAGS_color := False, FLAGS_input_images := ''a.png'',
                 FLAGS_input_image_file := ''list.txt''\<rparr>)
   = Inr \<lparr>output_file = ''out.pb'', as_text = False,
          protos = [\<lparr>data_type = FLOAT, dims = [1, 1, 2, 2],
                     float_data = [Some (- 128), Some (- 118), Some (- 88), Some (- 78)]\<rparr>]\<rparr>"
  by code_simp

subsection \<open>The assertions after the crop\<close>

text \<open>
  C6. The second assertion after the crop compares \<open>crop.rows\<close>, not \<open>crop.cols\<close>, with the
  width. An image of 2 rows and 3 columns that is neither resized nor cropped has the
  effective height 2 and width 3, and the run ends in that assertion.
\<close>

theorem crop_width_assertion_fails:
  "convertOneImage test_env test_flags ''wide.png'' = Inl (AssertionFailed ''crop.rows == width'')"
  by code_simp

subsection \<open>What one image returns\<close>

lemma cropToRec_shape:
  assumes "cropToRec img H W = Inr (crop, h, w)"
    and "(0 < H \<and> 0 < W) \<or> (H = int (rows img) \<and> W = int (cols img))"
  shows "int (rows crop) = h \<and> int (cols crop) = w"
  using assms by (auto simp: cropToRec_def Let_def split: if_splits)

lemma convertToVector_length:
  assumes "convertToVector env fl img = Inr v"
  shows "int (length v) = (if FLAGS_color fl then 3 else 1) * (int (cols img) * int (rows img))"
  using assms
  by (auto simp: convertToVector_def Let_def length_gray_loop length_color_loop int_range_def
      split: if_splits sum.splits)

lemma cropToRec_shape_default:
  "cropToRec img (int (rows img)) (int (cols img)) = Inr (crop, h, w) \<Longrightarrow>
     int (rows crop) = h \<and> int (cols crop) = w"
  by (rule cropToRec_shape) auto

lemma cropToRec_shape_positive:
  "cropToRec img H W = Inr (crop, h, w) \<Longrightarrow> \<not> H \<le> 0 \<Longrightarrow> \<not> W \<le> 0 \<Longrightarrow>
     int (rows crop) = h \<and> int (cols crop) = w"
  by (rule cropToRec_shape) auto

lemma convertOneImage_Inr:
  assumes "convertOneImage env fl name = Inr (v, h, w)"
  shows "0 \<le> h \<and> 0 \<le> w \<and> int (length v) = (if FLAGS_color fl then 3 else 1) * h * w"
  using assms unfolding convertOneImage_def Let_def
  by (auto split: if_splits sum.splits list.splits option.splits prod.splits
      dest!: cropToRec_shape_default cropToRec_shape_positive convertToVector_length)

subsection \<open>The loop over the images\<close>

lemma images_loop_established:
  assumes "0 \<le> h"
    and "images_loop env fl names h w vs = Inr (h', w', vs')"
  shows "h' = h \<and> w' = w \<and>
         (\<exists>rs. length rs = length names \<and> vs' = vs @ rs \<and>
            (\<forall>i<length names. convertOneImage env fl (names ! i) = Inr (rs ! i, h, w)))"
  using assms
proof (induction names arbitrary: vs)
  case Nil
  then show ?case by simp
next
  case (Cons name names)
  from Cons.prems obtain v where one: "convertOneImage env fl name = Inr (v, h, w)"
    and rest: "images_loop env fl names h w (vs @ [v]) = Inr (h', w', vs')"
    by (auto split: sum.splits prod.splits if_splits)
  from Cons.IH [OF Cons.prems(1) rest] obtain rs where
    hw: "h' = h" "w' = w" and rs: "length rs = length names" "vs' = (vs @ [v]) @ rs"
    and all: "\<forall>i<length names. convertOneImage env fl (names ! i) = Inr (rs ! i, h, w)"
    by blast
  have "\<forall>i<length (name # names). convertOneImage env fl ((name # names) ! i) = Inr ((v # rs) ! i, h, w)"
    using one all by (auto simp: nth_Cons')
  moreover have "length (v # rs) = length (name # names)" "vs' = vs @ (v # rs)"
    using rs by simp_all
  ultimately show ?case using hw by blast
qed

lemma images_loop_Inr:
  assumes "images_loop env fl names (- 1) (- 1) [] = Inr (H, W, vs)"
  shows "length vs = length names \<and>
         (names = [] \<longrightarrow> H = - 1 \<and> W = - 1) \<and>
         (\<forall>i<length names. convertOneImage env fl (names ! i) = Inr (vs ! i, H, W))"
proof (cases names)
  case Nil
  with assms show ?thesis by simp
next
  case (Cons name rest)
  with assms obtain v h w where one: "convertOneImage env fl name = Inr (v, h, w)"
    and loop: "images_loop env fl rest h w [v] = Inr (H, W, vs)"
    by (auto split: sum.splits prod.splits)
  from convertOneImage_Inr [OF one] have "0 \<le> h" by simp
  from images_loop_established [OF this loop] obtain rs where
    hw: "H = h" "W = w" and rs: "length rs = length rest" "vs = [v] @ rs"
    and all: "\<forall>i<length rest. convertOneImage env fl (rest ! i) = Inr (rs ! i, h, w)"
    by blast
  have "\<forall>i<length names. convertOneImage env fl (names ! i) = Inr (vs ! i, H, W)"
    using one all hw rs Cons by (auto simp: nth_Cons')
  with rs Cons show ?thesis by simp
qed

subsection \<open>The packing loop\<close>

lemma pack_loop_Inr:
  "pack_loop C h w vs d = Inr d' \<Longrightarrow> d' = d @ concat vs"
proof (induction vs arbitrary: d)
  case Nil
  then show ?case by simp
next
  case (Cons v vs)
  from Cons.prems have "pack_loop C h w vs (d @ v) = Inr d'"
    by (simp split: if_splits)
  from Cons.IH [OF this] show ?case by simp
qed

lemma nth_concat_equal_lengths:
  "\<forall>v\<in>set vs. length v = n \<Longrightarrow> i < length vs \<Longrightarrow> j < n \<Longrightarrow>
     concat vs ! (i * n + j) = vs ! i ! j"
proof (induction vs arbitrary: i)
  case Nil
  then show ?case by simp
next
  case (Cons v vs)
  show ?case
  proof (cases i)
    case 0
    with Cons.prems show ?thesis by (simp add: nth_append)
  next
    case (Suc i')
    with Cons.prems have "concat vs ! (i' * n + j) = vs ! i' ! j"
      by (intro Cons.IH) auto
    with Suc Cons.prems show ?thesis by (simp add: nth_append add.assoc)
  qed
qed

lemma length_concat_equal_lengths:
  "\<forall>v\<in>set vs. length v = n \<Longrightarrow> length (concat vs) = length vs * n"
  by (induction vs) simp_all


subsection \<open>The packed tensor\<close>

lemma convertImages_Inr:
  assumes "convertImages env fl = Inr out"
  shows "\<exists>names vs H W.
      read_file_names env fl = Inr names \<and>
      images_loop env fl names (- 1) (- 1) [] = Inr (H, W, vs) \<and>
      out = \<lparr>output_file = FLAGS_output_tensor fl, as_text = FLAGS_text_output fl,
             protos = [\<lparr>data_type = FLOAT,
                        dims = [int (length vs), if FLAGS_color fl then 3 else 1, H, W],
                        float_data = concat vs\<rparr>]\<rparr>"
  using assms unfolding convertImages_def Let_def
  by (auto split: sum.splits prod.splits dest!: pack_loop_Inr)

text \<open>
  C2. A run that reaches the writer hands it exactly one tensor of type FLOAT. With the
  \<open>N\<close> file names of the run in order, every image has been converted to a vector with the
  same height \<open>H\<close> and width \<open>W\<close>; the dims are \<open>[N, C, H, W]\<close>, the payload is the
  concatenation of the vectors in the order of the names, its length is \<open>N * C * H * W\<close>, and
  value \<open>j\<close> of image \<open>i\<close> stands at position \<open>i * (C * H * W) + j\<close>.
\<close>

theorem packed_tensor:
  assumes "convertImages env fl = Inr out"
  shows "\<exists>names vs H W.
      read_file_names env fl = Inr names \<and> length vs = length names \<and>
      (\<forall>i<length names. convertOneImage env fl (names ! i) = Inr (vs ! i, H, W)) \<and>
      out = \<lparr>output_file = FLAGS_output_tensor fl, as_text = FLAGS_text_output fl,
             protos = [\<lparr>data_type = FLOAT,
                        dims = [int (length names), if FLAGS_color fl then 3 else 1, H, W],
                        float_data = concat vs\<rparr>]\<rparr> \<and>
      int (length (concat vs)) = int (length names) * (if FLAGS_color fl then 3 else 1) * H * W \<and>
      (\<forall>i<length names. \<forall>j<nat ((if FLAGS_color fl then 3 else 1) * H * W).
         concat vs ! (i * nat ((if FLAGS_color fl then 3 else 1) * H * W) + j) = vs ! i ! j)"
proof -
  let ?C = "if FLAGS_color fl then 3 else 1 :: int"
  from convertImages_Inr [OF assms] obtain names vs H W where
    names: "read_file_names env fl = Inr names"
    and loop: "images_loop env fl names (- 1) (- 1) [] = Inr (H, W, vs)"
    and out: "out = \<lparr>output_file = FLAGS_output_tensor fl, as_text = FLAGS_text_output fl,
             protos = [\<lparr>data_type = FLOAT, dims = [int (length vs), ?C, H, W],
                        float_data = concat vs\<rparr>]\<rparr>"
    by blast
  from images_loop_Inr [OF loop] have len: "length vs = length names"
    and each: "\<forall>i<length names. convertOneImage env fl (names ! i) = Inr (vs ! i, H, W)"
    by blast+
  let ?n = "nat (?C * H * W)"
  have lens: "\<forall>v\<in>set vs. length v = ?n"
  proof
    fix v assume "v \<in> set vs"
    then obtain i where i: "i < length vs" "v = vs ! i" by (auto simp: in_set_conv_nth)
    with each len have "convertOneImage env fl (names ! i) = Inr (v, H, W)" by simp
    from convertOneImage_Inr [OF this] have "int (length v) = ?C * H * W" by blast
    then show "length v = ?n" by (metis nat_int)
  qed
  have total: "int (length (concat vs)) = int (length names) * ?C * H * W"
  proof (cases names)
    case Nil
    with len show ?thesis by simp
  next
    case (Cons name rest)
    with each have "convertOneImage env fl name = Inr (vs ! 0, H, W)" by auto
    from convertOneImage_Inr [OF this] have "0 \<le> ?C * H * W" by simp
    then have "int ?n = ?C * H * W" by simp
    with length_concat_equal_lengths [OF lens] len show ?thesis
      by (simp add: mult.assoc)
  qed
  have nth: "\<forall>i<length names. \<forall>j<?n. concat vs ! (i * ?n + j) = vs ! i ! j"
    using nth_concat_equal_lengths [OF lens] len by simp
  from names len each out total nth show ?thesis by (intro exI [of _ names] exI [of _ vs] exI [of _ H] exI [of _ W]) simp
qed


lemma test_gray_run:
  "convertImages test_env gray_flags =
     Inr \<lparr>output_file = ''out.pb'', as_text = False,
          protos = [\<lparr>data_type = FLOAT, dims = [2, 1, 2, 2],
                     float_data = [Some (- 128), Some (- 118), Some (- 88), Some (- 78),
                                   Some (- 28), Some (- 18), Some 12, Some 22]\<rparr>]\<rparr>"
  by code_simp

theorem packed_tensor_witness:
  "convertImages test_env gray_flags =
     Inr \<lparr>output_file = ''out.pb'', as_text = False,
          protos = [\<lparr>data_type = FLOAT, dims = [2, 1, 2, 2],
                     float_data = [Some (- 128), Some (- 118), Some (- 88), Some (- 78),
                                   Some (- 28), Some (- 18), Some 12, Some 22]\<rparr>]\<rparr> \<and>
   (\<exists>names vs H W.
      read_file_names test_env gray_flags = Inr names \<and> length vs = length names \<and>
      (\<forall>i<length names. convertOneImage test_env gray_flags (names ! i) = Inr (vs ! i, H, W)) \<and>
      dims (hd (protos \<lparr>output_file = ''out.pb'', as_text = False,
          protos = [\<lparr>data_type = FLOAT, dims = [2, 1, 2, 2],
                     float_data = [Some (- 128), Some (- 118), Some (- 88), Some (- 78),
                                   Some (- 28), Some (- 18), Some 12, Some 22]\<rparr>]\<rparr>))
        = [int (length names), 1, H, W] \<and>
      concat vs = [Some (- 128), Some (- 118), Some (- 88), Some (- 78),
                   Some (- 28), Some (- 18), Some 12, Some 22])"
proof -
  have c: "\<not> FLAGS_color gray_flags" by (simp add: gray_flags_def test_flags_def)
  from packed_tensor [OF test_gray_run] obtain names vs H W where
    "read_file_names test_env gray_flags = Inr names" "length vs = length names"
    "\<forall>i<length names. convertOneImage test_env gray_flags (names ! i) = Inr (vs ! i, H, W)"
    "\<lparr>output_file = ''out.pb'', as_text = False,
          protos = [\<lparr>data_type = FLOAT, dims = [2, 1, 2, 2],
                     float_data = [Some (- 128), Some (- 118), Some (- 88), Some (- 78),
                                   Some (- 28), Some (- 18), Some 12, Some 22]\<rparr>]\<rparr>
     = \<lparr>output_file = FLAGS_output_tensor gray_flags, as_text = FLAGS_text_output gray_flags,
             protos = [\<lparr>data_type = FLOAT,
                        dims = [int (length names), if FLAGS_color gray_flags then 3 else 1, H, W],
                        float_data = concat vs\<rparr>]\<rparr>"
    by blast
  with c test_gray_run show ?thesis
    by (intro conjI exI [of _ names] exI [of _ vs] exI [of _ H] exI [of _ W]) simp_all
qed

subsection \<open>The shape of the batch\<close>

text \<open>
  C5. Let the first image of the run be converted with the effective height \<open>H\<close> and width
  \<open>W\<close>. Its vector has length \<open>C * H * W\<close>. If the run reaches the writer, the tensor has
  the dims \<open>[N, C, H, W]\<close> and every later image was converted with the same \<open>H\<close> and \<open>W\<close>
  to a vector of length \<open>C * H * W\<close>. If a later image is converted with another height or
  width, the run ends in an error and nothing reaches the writer.
\<close>

theorem batch_shape_invariant:
  assumes names: "read_file_names env fl = Inr (name0 # rest)"
    and first: "convertOneImage env fl name0 = Inr (v0, H, W)"
  shows "int (length v0) = (if FLAGS_color fl then 3 else 1) * H * W \<and>
     (\<forall>out. convertImages env fl = Inr out \<longrightarrow>
        (\<exists>d. protos out =
           [\<lparr>data_type = FLOAT,
             dims = [int (length (name0 # rest)), if FLAGS_color fl then 3 else 1, H, W],
             float_data = d\<rparr>]) \<and>
        (\<forall>n\<in>set rest. \<exists>v. convertOneImage env fl n = Inr (v, H, W) \<and>
           int (length v) = (if FLAGS_color fl then 3 else 1) * H * W)) \<and>
     (\<forall>n\<in>set rest. \<forall>v h w.
        convertOneImage env fl n = Inr (v, h, w) \<and> (h \<noteq> H \<or> w \<noteq> W) \<longrightarrow>
        (\<exists>e. convertImages env fl = Inl e))"
proof -
  let ?C = "if FLAGS_color fl then 3 else 1 :: int"
  have len0: "int (length v0) = ?C * H * W"
    using convertOneImage_Inr [OF first] by blast
  have ok: "(\<exists>d. protos out = [\<lparr>data_type = FLOAT,
             dims = [int (length (name0 # rest)), ?C, H, W], float_data = d\<rparr>]) \<and>
        (\<forall>n\<in>set rest. \<exists>v. convertOneImage env fl n = Inr (v, H, W) \<and>
           int (length v) = ?C * H * W)"
    if run: "convertImages env fl = Inr out" for out
  proof -
    from convertImages_Inr [OF run] names obtain vs H' W' where
      loop: "images_loop env fl (name0 # rest) (- 1) (- 1) [] = Inr (H', W', vs)"
      and out: "out = \<lparr>output_file = FLAGS_output_tensor fl, as_text = FLAGS_text_output fl,
             protos = [\<lparr>data_type = FLOAT, dims = [int (length vs), ?C, H', W'],
                        float_data = concat vs\<rparr>]\<rparr>"
      by auto
    from images_loop_Inr [OF loop] have len: "length vs = length (name0 # rest)"
      and each: "\<forall>i<length (name0 # rest).
         convertOneImage env fl ((name0 # rest) ! i) = Inr (vs ! i, H', W')"
      by blast+
    from each [rule_format, of 0] first have hw: "H' = H" "W' = W" by simp_all
    have "\<exists>v. convertOneImage env fl n = Inr (v, H, W) \<and> int (length v) = ?C * H * W"
      if "n \<in> set rest" for n
    proof -
      from that obtain i where i: "i < length rest" "n = rest ! i"
        by (auto simp: in_set_conv_nth)
      with each [rule_format, of "Suc i"] hw
      have one: "convertOneImage env fl n = Inr (vs ! Suc i, H, W)" by simp
      from convertOneImage_Inr [OF one] one show ?thesis by blast
    qed
    with out len hw show ?thesis by simp
  qed
  have bad: "\<exists>e. convertImages env fl = Inl e"
    if n: "n \<in> set rest" and one: "convertOneImage env fl n = Inr (v, h, w)"
      and diff: "h \<noteq> H \<or> w \<noteq> W" for n v h w
  proof (cases "convertImages env fl")
    case (Inl e)
    then show ?thesis by blast
  next
    case (Inr out)
    from ok [OF Inr] n obtain v' where "convertOneImage env fl n = Inr (v', H, W)" by blast
    with one diff show ?thesis by simp
  qed
  from len0 ok bad show ?thesis by blast
qed

lemma test_first_image:
  "read_file_names test_env gray_flags = Inr [''a.png'', ''b.png'']"
  "read_file_names test_env (gray_flags\<lparr>FLAGS_input_images := ''a.png,small.png''\<rparr>)
     = Inr [''a.png'', ''small.png'']"
  "convertOneImage test_env gray_flags ''a.png''
     = Inr ([Some (- 128), Some (- 118), Some (- 88), Some (- 78)], 2, 2)"
  "convertOneImage test_env (gray_flags\<lparr>FLAGS_input_images := ''a.png,small.png''\<rparr>) ''a.png''
     = Inr ([Some (- 128), Some (- 118), Some (- 88), Some (- 78)], 2, 2)"
  "convertOneImage test_env (gray_flags\<lparr>FLAGS_input_images := ''a.png,small.png''\<rparr>) ''small.png''
     = Inr ([Some (- 121)], 1, 1)"
  by code_simp+

theorem batch_shape_invariant_witness:
  "read_file_names test_env gray_flags = Inr [''a.png'', ''b.png''] \<and>
   convertOneImage test_env gray_flags ''a.png''
     = Inr ([Some (- 128), Some (- 118), Some (- 88), Some (- 78)], 2, 2) \<and>
   (\<exists>v. convertOneImage test_env gray_flags ''b.png'' = Inr (v, 2, 2) \<and> length v = 4) \<and>
   convertOneImage test_env (gray_flags\<lparr>FLAGS_input_images := ''a.png,small.png''\<rparr>) ''small.png''
     = Inr ([Some (- 121)], 1, 1) \<and>
   (\<exists>e. convertImages test_env (gray_flags\<lparr>FLAGS_input_images := ''a.png,small.png''\<rparr>) = Inl e)"
proof -
  have c: "\<not> FLAGS_color gray_flags" by (simp add: gray_flags_def test_flags_def)
  from batch_shape_invariant [OF test_first_image(1) test_first_image(3)] test_gray_run c
  have b: "\<exists>v. convertOneImage test_env gray_flags ''b.png'' = Inr (v, 2, 2) \<and> length v = 4"
    by auto
  from batch_shape_invariant [OF test_first_image(2) test_first_image(4)] test_first_image(5)
  have "\<exists>e. convertImages test_env (gray_flags\<lparr>FLAGS_input_images := ''a.png,small.png''\<rparr>) = Inl e"
    by auto
  with b test_first_image show ?thesis by blast
qed

subsection \<open>Rounding to binary32\<close>


lemma pow2_pos: "0 < pow2 e"
  by (simp add: pow2_def)










subsection \<open>The size of the resized image\<close>








end
